theory Spec2Isabelle
  imports Complex_Main
begin

section \<open>JavaScript values\<close>

text \<open>
  The service-worker glue of \<^verbatim>\<open>assets/javascript/sw-init.js\<close> receives its data from
  the worker through \<^verbatim>\<open>postMessage\<close>, and its comments say that the data may come
  from a future version of the site. A payload is therefore any plain JavaScript value.

  A JavaScript Number is an IEEE 754 double. The model keeps the finite doubles as the
  rationals they denote and rounds explicitly (\<open>to_double\<close>), so that no claim rests on
  real-number arithmetic the program does not have. The two zeros are identified: the
  program only tests numbers for truthiness, compares them with \<^verbatim>\<open><=\<close> and
  subtracts them, and none of these tells \<^verbatim>\<open>-0\<close> from \<^verbatim>\<open>+0\<close>.
\<close>

datatype jsnum = NaN | Infinity | NegInfinity | Fin rat

datatype jsval =
    Undefined
  | Null
  | Bool bool
  | Num jsnum
  | Str string
  | Arr "jsval list"
  | Obj "(string \<times> jsval) list"

subsection \<open>Rounding to a double\<close>

fun bit_length :: "nat \<Rightarrow> nat" where
  "bit_length n = (if n = 0 then 0 else Suc (bit_length (n div 2)))"

declare bit_length.simps [simp del]

definition pow2 :: "int \<Rightarrow> rat" where
  "pow2 k = (if 0 \<le> k then 2 ^ nat k else 1 / 2 ^ nat (- k))"

definition ilog2 :: "rat \<Rightarrow> int" where
  \<comment> \<open>\<open>\<lfloor>log\<^sub>2 q\<rfloor>\<close> for \<open>q > 0\<close>, from the bit lengths of numerator and denominator.\<close>
  "ilog2 q =
     (let (a, b) = quotient_of q;
          k = int (bit_length (nat a)) - int (bit_length (nat b))
      in if pow2 k \<le> q then k else k - 1)"

definition round_half_even :: "rat \<Rightarrow> int" where
  "round_half_even q =
     (let f = \<lfloor>q\<rfloor>; d = q - of_int f
      in if d < 1 / 2 then f
         else if 1 / 2 < d then f + 1
         else if even f then f else f + 1)"

definition to_double :: "rat \<Rightarrow> jsnum" where
  \<comment> \<open>Round to nearest, ties to even, with 53 significant bits; the smallest exponent
      of a unit in the last place is \<open>-1074\<close>, and \<open>2\<^sup>1\<^sup>0\<^sup>2\<^sup>4\<close> is out of range.\<close>
  "to_double q =
     (if q = 0 then Fin 0
      else
        let a = \<bar>q\<bar>;
            p = max (ilog2 a - 52) (- 1074);
            v = of_int (round_half_even (a / pow2 p)) * pow2 p
        in if pow2 1024 \<le> v then (if 0 < q then Infinity else NegInfinity)
           else Fin (if 0 < q then v else - v))"

subsection \<open>Arithmetic, comparison and truthiness of Numbers\<close>

fun js_sub :: "jsnum \<Rightarrow> jsnum \<Rightarrow> jsnum" where
  "js_sub NaN _ = NaN"
| "js_sub _ NaN = NaN"
| "js_sub Infinity Infinity = NaN"
| "js_sub NegInfinity NegInfinity = NaN"
| "js_sub Infinity _ = Infinity"
| "js_sub NegInfinity _ = NegInfinity"
| "js_sub (Fin a) Infinity = NegInfinity"
| "js_sub (Fin a) NegInfinity = Infinity"
| "js_sub (Fin a) (Fin b) = to_double (a - b)"

fun js_le :: "jsnum \<Rightarrow> jsnum \<Rightarrow> bool" where
  "js_le NaN _ = False"
| "js_le _ NaN = False"
| "js_le NegInfinity _ = True"
| "js_le _ Infinity = True"
| "js_le Infinity _ = False"
| "js_le _ NegInfinity = False"
| "js_le (Fin a) (Fin b) = (a \<le> b)"

fun truthy_num :: "jsnum \<Rightarrow> bool" where
  "truthy_num NaN = False"
| "truthy_num (Fin q) = (q \<noteq> 0)"
| "truthy_num _ = True"

fun truthy :: "jsval \<Rightarrow> bool" where
  "truthy Undefined = False"
| "truthy Null = False"
| "truthy (Bool b) = b"
| "truthy (Num n) = truthy_num n"
| "truthy (Str s) = (s \<noteq> [])"
| "truthy (Arr _) = True"
| "truthy (Obj _) = True"

subsection \<open>Strings to Numbers\<close>

text \<open>
  \<^verbatim>\<open>Number(s)\<close> on a string follows the \<^verbatim>\<open>StringNumericLiteral\<close> grammar of
  ECMAScript: white space is trimmed, the empty string is \<open>0\<close>, a literal is a signed
  decimal (with optional fraction and exponent, or \<^verbatim>\<open>Infinity\<close>) or an unsigned
  hexadecimal, octal or binary integer, and anything else is \<open>NaN\<close>. A \<open>char\<close> stands
  for the UTF-16 code unit of the same value.
\<close>

definition is_ws :: "char \<Rightarrow> bool" where
  "is_ws c = ((of_char c :: nat) \<in> {9, 10, 11, 12, 13, 32, 160})"

definition trim :: "string \<Rightarrow> string" where
  "trim s = rev (dropWhile is_ws (rev (dropWhile is_ws s)))"

definition digit_val :: "char \<Rightarrow> nat option" where
  "digit_val c =
     (let n = (of_char c :: nat)
      in if 48 \<le> n \<and> n \<le> 57 then Some (n - 48)
         else if 97 \<le> n \<and> n \<le> 102 then Some (n - 87)
         else if 65 \<le> n \<and> n \<le> 70 then Some (n - 55)
         else None)"

definition is_digit :: "char \<Rightarrow> bool" where
  "is_digit c = (48 \<le> (of_char c :: nat) \<and> (of_char c :: nat) \<le> 57)"

fun digits_value :: "nat \<Rightarrow> nat \<Rightarrow> string \<Rightarrow> nat option" where
  "digits_value b acc [] = Some acc"
| "digits_value b acc (c # cs) =
     (case digit_val c of
        None \<Rightarrow> None
      | Some d \<Rightarrow> if d < b then digits_value b (b * acc + d) cs else None)"

definition numeral_value :: "nat \<Rightarrow> string \<Rightarrow> nat option" where
  \<comment> \<open>The value of a non-empty string of digits of base \<open>b\<close>.\<close>
  "numeral_value b s = (if s = [] then None else digits_value b 0 s)"

definition non_decimal :: "string \<Rightarrow> nat option" where
  "non_decimal s =
     (case s of
        z # x # ds \<Rightarrow>
          if z \<noteq> CHR ''0'' then None
          else if x = CHR ''x'' \<or> x = CHR ''X'' then numeral_value 16 ds
          else if x = CHR ''o'' \<or> x = CHR ''O'' then numeral_value 8 ds
          else if x = CHR ''b'' \<or> x = CHR ''B'' then numeral_value 2 ds
          else None
      | _ \<Rightarrow> None)"

definition is_exp_mark :: "char \<Rightarrow> bool" where
  "is_exp_mark c = (c = CHR ''e'' \<or> c = CHR ''E'')"

definition signed_integer :: "string \<Rightarrow> int option" where
  "signed_integer s =
     (case s of
        [] \<Rightarrow> None
      | c # t \<Rightarrow>
          if c = CHR ''+'' then map_option int (numeral_value 10 t)
          else if c = CHR ''-'' then map_option (\<lambda>n. - int n) (numeral_value 10 t)
          else map_option int (numeral_value 10 s))"

definition exponent_part :: "string \<Rightarrow> int option" where
  "exponent_part r = (case r of [] \<Rightarrow> Some 0 | _ # t \<Rightarrow> signed_integer t)"

definition mantissa :: "string \<Rightarrow> rat option" where
  "mantissa m =
     (let ip = takeWhile is_digit m; fr = dropWhile is_digit m
      in case fr of
           [] \<Rightarrow> map_option of_nat (numeral_value 10 ip)
         | c # fp \<Rightarrow>
             if c \<noteq> CHR ''.'' \<or> (ip = [] \<and> fp = []) then None
             else
               (case (digits_value 10 0 ip, digits_value 10 0 fp) of
                  (Some i, Some f) \<Rightarrow> Some (of_nat i + of_nat f / 10 ^ length fp)
                | _ \<Rightarrow> None))"

definition pow10 :: "int \<Rightarrow> rat" where
  "pow10 k = (if 0 \<le> k then 10 ^ nat k else 1 / 10 ^ nat (- k))"

definition unsigned_decimal :: "string \<Rightarrow> jsnum option" where
  "unsigned_decimal s =
     (if s = ''Infinity'' then Some Infinity
      else
        (case (mantissa (takeWhile (\<lambda>c. \<not> is_exp_mark c) s),
               exponent_part (dropWhile (\<lambda>c. \<not> is_exp_mark c) s)) of
           (Some q, Some e) \<Rightarrow> Some (to_double (q * pow10 e))
         | _ \<Rightarrow> None))"

fun js_neg :: "jsnum \<Rightarrow> jsnum" where
  "js_neg NaN = NaN"
| "js_neg Infinity = NegInfinity"
| "js_neg NegInfinity = Infinity"
| "js_neg (Fin q) = Fin (- q)"

definition signed_decimal :: "string \<Rightarrow> jsnum option" where
  "signed_decimal s =
     (case s of
        [] \<Rightarrow> None
      | c # t \<Rightarrow>
          if c = CHR ''+'' then unsigned_decimal t
          else if c = CHR ''-'' then map_option js_neg (unsigned_decimal t)
          else unsigned_decimal s)"

definition StringToNumber :: "string \<Rightarrow> jsnum" where
  "StringToNumber s =
     (let t = trim s
      in if t = [] then Fin 0
         else
           (case non_decimal t of
              Some n \<Rightarrow> to_double (of_nat n)
            | None \<Rightarrow> (case signed_decimal t of Some v \<Rightarrow> v | None \<Rightarrow> NaN)))"

text \<open>
  \<^verbatim>\<open>Number(v)\<close> on any value. An object is converted through its string form: a plain
  object gives \<^verbatim>\<open>"[object Object]"\<close>, hence \<open>NaN\<close>; an array gives its elements
  joined by commas, so the empty array is \<open>0\<close>, two or more elements are \<open>NaN\<close>, and a
  single element counts as its own string form (empty for \<^verbatim>\<open>undefined\<close> and
  \<^verbatim>\<open>null\<close>; a number prints to a string that reads back as the same number).
\<close>

fun ToNumber :: "jsval \<Rightarrow> jsnum" where
  "ToNumber Undefined = NaN"
| "ToNumber Null = Fin 0"
| "ToNumber (Bool b) = (if b then Fin 1 else Fin 0)"
| "ToNumber (Num n) = n"
| "ToNumber (Str s) = StringToNumber s"
| "ToNumber (Obj _) = NaN"
| "ToNumber (Arr []) = Fin 0"
| "ToNumber (Arr [Undefined]) = Fin 0"
| "ToNumber (Arr [Null]) = Fin 0"
| "ToNumber (Arr [Bool _]) = NaN"
| "ToNumber (Arr [Obj _]) = NaN"
| "ToNumber (Arr [Num n]) = n"
| "ToNumber (Arr [Str s]) = StringToNumber s"
| "ToNumber (Arr [Arr ys]) = ToNumber (Arr ys)"
| "ToNumber (Arr (_ # _ # _)) = NaN"

subsection \<open>Property reads, \<^verbatim>\<open>||\<close> and \<^verbatim>\<open>split\<close>\<close>

datatype js_error =
    TypeError_destructure
  | TypeError_property string
  | TypeError_not_function string

definition get_property :: "jsval \<Rightarrow> string \<Rightarrow> js_error + jsval" where
  \<comment> \<open>\<^verbatim>\<open>v.k\<close> and \<^verbatim>\<open>const {k} = v\<close> for the names this program reads, none of which
      is a property of a boolean, a number, a string or an array.\<close>
  "get_property v k =
     (case v of
        Undefined \<Rightarrow> Inl (TypeError_property k)
      | Null \<Rightarrow> Inl (TypeError_property k)
      | Obj kvs \<Rightarrow> Inr (case map_of kvs k of None \<Rightarrow> Undefined | Some x \<Rightarrow> x)
      | _ \<Rightarrow> Inr Undefined)"

definition js_or :: "jsval \<Rightarrow> jsval \<Rightarrow> jsval" where
  "js_or a b = (if truthy a then a else b)"

definition split_receiver :: "jsval \<Rightarrow> js_error + string" where
  \<comment> \<open>\<^verbatim>\<open>v.split\<close> is a function only when \<open>v\<close> is a string.\<close>
  "split_receiver v =
     (case v of
        Str s \<Rightarrow> Inr s
      | Undefined \<Rightarrow> Inl (TypeError_property ''split'')
      | Null \<Rightarrow> Inl (TypeError_property ''split'')
      | _ \<Rightarrow> Inl (TypeError_not_function ''split''))"

fun split :: "char \<Rightarrow> string \<Rightarrow> string list" where
  "split sep [] = [[]]"
| "split sep (c # cs) =
     (if c = sep then [] # split sep cs
      else (case split sep cs of [] \<Rightarrow> [[c]] | w # ws \<Rightarrow> (c # w) # ws))"

definition element0 :: "string list \<Rightarrow> jsval" where
  \<comment> \<open>\<^verbatim>\<open>xs[0]\<close>: \<^verbatim>\<open>undefined\<close> on the empty array.\<close>
  "element0 xs = (case xs of [] \<Rightarrow> Undefined | x # _ \<Rightarrow> Str x)"

section \<open>The Metadata Processor\<close>

text \<open>
  \<^verbatim>\<open>processMetadata\<close> (sw-init.js, lines 60 to 82). \<open>now\<close> is the value of
  \<^verbatim>\<open>Date.now()\<close>, an integral number of milliseconds. The body of the \<^verbatim>\<open>try\<close> block
  is \<open>processMetadata_try\<close>, where \<open>Inl\<close> is a thrown exception; \<open>processMetadata\<close>
  adds the default parameter and the \<^verbatim>\<open>catch\<close>, and its own \<open>Inl\<close> would be an
  exception that escapes the function.
\<close>

record metadata =
  oldVersion :: string
  oldMajorVersion :: jsnum
  newVersion :: string
  newMajorVersion :: jsnum
  timeSinceNewVersionDeployed :: jsnum

datatype result = ErrorResult js_error | VersionResult metadata

definition processMetadata_try :: "int \<Rightarrow> jsval \<Rightarrow> js_error + metadata" where
  "processMetadata_try now payload =
     (case get_property payload ''oldMetadata'' of
        Inl _ \<Rightarrow> Inl TypeError_destructure
      | Inr oldMetadata \<Rightarrow>
     (case get_property payload ''newMetadata'' of
        Inl _ \<Rightarrow> Inl TypeError_destructure
      | Inr newMetadata \<Rightarrow>
     (case get_property oldMetadata ''version'' of
        Inl e \<Rightarrow> Inl e
      | Inr v_old \<Rightarrow>
     (case get_property newMetadata ''version'' of
        Inl e \<Rightarrow> Inl e
      | Inr v_new \<Rightarrow>
     (case split_receiver (js_or v_old (Str [])) of
        Inl e \<Rightarrow> Inl e
      | Inr old_version \<Rightarrow>
     (case split_receiver (js_or v_new (Str [])) of
        Inl e \<Rightarrow> Inl e
      | Inr new_version \<Rightarrow>
     (case get_property newMetadata ''buildTime'' of
        Inl e \<Rightarrow> Inl e
      | Inr buildTime \<Rightarrow>
          Inr \<lparr> oldVersion = old_version,
                oldMajorVersion = ToNumber (element0 (split CHR ''.'' old_version)),
                newVersion = new_version,
                newMajorVersion = ToNumber (element0 (split CHR ''.'' new_version)),
                timeSinceNewVersionDeployed =
                  js_sub (to_double (of_int now)) (ToNumber buildTime) \<rparr>)))))))"

definition processMetadata :: "int \<Rightarrow> jsval \<Rightarrow> js_error + result" where
  "processMetadata now payload =
     (case processMetadata_try now (if payload = Undefined then Obj [] else payload) of
        Inl error \<Rightarrow> Inr (ErrorResult error)
      | Inr m \<Rightarrow> Inr (VersionResult m))"

section \<open>The page and its collaborators\<close>

text \<open>
  \<^verbatim>\<open>NULL_VALUE\<close> is the constant of the analytics module. The calls of \<^verbatim>\<open>ga\<close>, of
  \<^verbatim>\<open>messages.add\<close> and of \<^verbatim>\<open>wb.messageSW\<close> are recorded in the order they are made.
\<close>

definition NULL_VALUE :: string where
  "NULL_VALUE = ''(not set)''"

record ga_event =
  eventCategory :: string
  eventAction :: string
  eventValue :: jsnum
  eventLabel :: string

datatype dimension = SITE_VERSION | CACHE_HIT

datatype ga_command = GaSet dimension jsval | GaSendEvent ga_event

datatype effect = Send ga_event | ReloadAfter nat

record notification =
  body :: string
  action :: string
  onAction :: "effect list"
  onDismiss :: "effect list"

datatype cache_item = Url string | UrlWithInit string "(string \<times> string) list"

datatype sw_message = GET_METADATA | CACHE_URLS "cache_item list"

record page =
  ga_calls :: "ga_command list"
  notifications :: "notification list"
  posted :: "sw_message list"

definition ga :: "ga_command \<Rightarrow> 'a page_scheme \<Rightarrow> 'a page_scheme" where
  "ga c st = st\<lparr>ga_calls := ga_calls st @ [c]\<rparr>"

definition messages_add :: "notification \<Rightarrow> 'a page_scheme \<Rightarrow> 'a page_scheme" where
  "messages_add n st = st\<lparr>notifications := notifications st @ [n]\<rparr>"

definition messageSW :: "sw_message \<Rightarrow> 'a page_scheme \<Rightarrow> 'a page_scheme" where
  "messageSW m st = st\<lparr>posted := posted st @ [m]\<rparr>"

section \<open>The update listener\<close>

text \<open>
  The listener registered by \<^verbatim>\<open>addSWUpdateListener\<close> (lines 132 to 188). The five
  names destructured from the result of \<open>processMetadata\<close> are \<^verbatim>\<open>undefined\<close> on an
  \<^verbatim>\<open>{error}\<close> result: \<open>destructured r f\<close> is \<open>None\<close> then.
\<close>

definition destructured :: "result \<Rightarrow> (metadata \<Rightarrow> 'a) \<Rightarrow> 'a option" where
  "destructured r f = (case r of VersionResult m \<Rightarrow> Some (f m) | ErrorResult _ \<Rightarrow> None)"

definition or_num :: "jsnum option \<Rightarrow> jsnum \<Rightarrow> jsnum" where
  \<comment> \<open>\<^verbatim>\<open>x || d\<close> for a number or \<^verbatim>\<open>undefined\<close>.\<close>
  "or_num x d = (case x of None \<Rightarrow> d | Some n \<Rightarrow> if truthy_num n then n else d)"

definition or_str :: "string option \<Rightarrow> string \<Rightarrow> string" where
  \<comment> \<open>\<^verbatim>\<open>x || d\<close> for a string or \<^verbatim>\<open>undefined\<close>.\<close>
  "or_str x d = (case x of None \<Rightarrow> d | Some s \<Rightarrow> if s \<noteq> [] then s else d)"

definition sendEvent :: "result \<Rightarrow> string \<Rightarrow> string \<Rightarrow> ga_event" where
  "sendEvent r category act =
     \<lparr> eventCategory = category,
       eventAction = act,
       eventValue = or_num (destructured r timeSinceNewVersionDeployed) (Fin 0),
       eventLabel =
         (case destructured r newVersion of
            None \<Rightarrow> NULL_VALUE
          | Some nv \<Rightarrow>
              if nv \<noteq> [] then or_str (destructured r oldVersion) NULL_VALUE @ '' => '' @ nv
              else NULL_VALUE) \<rparr>"

definition no_major_change :: "result \<Rightarrow> bool" where
  \<comment> \<open>\<^verbatim>\<open>newMajorVersion && newMajorVersion <= oldMajorVersion\<close>\<close>
  "no_major_change r =
     (case destructured r newMajorVersion of
        None \<Rightarrow> False
      | Some n \<Rightarrow>
          truthy_num n \<and>
          (case destructured r oldMajorVersion of None \<Rightarrow> False | Some old \<Rightarrow> js_le n old))"

definition update_notification :: "result \<Rightarrow> notification" where
  "update_notification r =
     \<lparr> body = ''A newer version of this site is available.'',
       action = ''Reload'',
       onAction = [Send (sendEvent r ''Messages'' ''sw-update-reload''), ReloadAfter 0],
       onDismiss = [Send (sendEvent r ''Messages'' ''sw-update-dismiss'')] \<rparr>"

definition swUpdateListener :: "string \<Rightarrow> int \<Rightarrow> jsval \<Rightarrow> page \<Rightarrow> js_error + page" where
  "swUpdateListener initialSWState now data st =
     (case get_property data ''type'' of
        Inl e \<Rightarrow> Inl e
      | Inr ty \<Rightarrow>
          if ty \<noteq> Str ''UPDATE_AVAILABLE'' then Inr st
          else
     (case get_property data ''payload'' of
        Inl e \<Rightarrow> Inl e
      | Inr payload \<Rightarrow>
     (case processMetadata now payload of
        Inl e \<Rightarrow> Inl e
      | Inr r \<Rightarrow>
          let st1 = ga (GaSendEvent (sendEvent r ''Service Worker'' ''sw-update'')) st;
              shouldNotifyUser = True;
              shouldNotifyUser = (if no_major_change r then False else shouldNotifyUser);
              shouldNotifyUser =
                (if initialSWState \<noteq> ''controlled'' then False else shouldNotifyUser)
          in if shouldNotifyUser
             then Inr (ga (GaSendEvent (sendEvent r ''Messages'' ''sw-update-notify''))
                         (messages_add (update_notification r) st1))
             else Inr st1)))"

section \<open>The installed listener\<close>

text \<open>
  The listener registered by \<^verbatim>\<open>addFirstInstalledListener\<close> (lines 84 to 107), given
  \<^verbatim>\<open>event.isUpdate\<close>, \<^verbatim>\<open>location.href\<close> and the resource timing entries of the page.
\<close>

record resource =
  name :: string

fun includes_str :: "string \<Rightarrow> string \<Rightarrow> bool" where
  "includes_str [] pat = (pat = [])"
| "includes_str (c # cs) pat = (take (length pat) (c # cs) = pat \<or> includes_str cs pat)"

definition urlsToCache :: "string \<Rightarrow> resource list \<Rightarrow> cache_item list" where
  "urlsToCache href resources =
     Url href #
     map (\<lambda>r. let url = name r
               in if includes_str url ''google-analytics.com/analytics.js''
                  then UrlWithInit url [(''mode'', ''no-cors'')]
                  else Url url) resources"

definition firstInstalledListener ::
  "jsval \<Rightarrow> string \<Rightarrow> resource list \<Rightarrow> page \<Rightarrow> page" where
  "firstInstalledListener isUpdate href resources st =
     (if \<not> truthy isUpdate then messageSW (CACHE_URLS (urlsToCache href resources)) st
      else st)"

section \<open>The site-version lookup\<close>

text \<open>
  \<^verbatim>\<open>setSiteVersionOrTimeout\<close> (lines 12 to 26) awaits a promise whose executor may
  call \<^verbatim>\<open>resolve\<close> at once, always asks the worker and always arms a timer. A promise
  keeps the first value it is resolved with. The async function resumes once, after
  the promise is settled, and then sets the dimension. What happens later is a list
  of events in their order of arrival: the worker's reply and the timer.
\<close>

record lookup = page +
  settled :: "jsval option"
  resumed :: bool
  reply_pending :: bool
  timer_pending :: "nat option"

datatype event = WorkerReply jsval | TimerFired

definition resolve :: "jsval \<Rightarrow> lookup \<Rightarrow> lookup" where
  "resolve v st = (if settled st = None then st\<lparr>settled := Some v\<rparr> else st)"

definition executor :: "string \<Rightarrow> lookup \<Rightarrow> lookup" where
  "executor initialSWState st =
     (let st1 = (if initialSWState \<noteq> ''controlled''
                 then resolve (Obj [(''version'', Str NULL_VALUE)]) st else st);
          st2 = (messageSW GET_METADATA st1)\<lparr>reply_pending := True\<rparr>
      in st2\<lparr>timer_pending := Some 3000\<rparr>)"

definition resume :: "lookup \<Rightarrow> lookup" where
  \<comment> \<open>The rest of the async function after \<^verbatim>\<open>await\<close>; destructuring
      \<^verbatim>\<open>undefined\<close> or \<^verbatim>\<open>null\<close> rejects it before \<^verbatim>\<open>ga\<close> is called.\<close>
  "resume st =
     (case settled st of
        None \<Rightarrow> st
      | Some v \<Rightarrow>
          if resumed st then st
          else (case get_property v ''version'' of
                  Inl _ \<Rightarrow> st\<lparr>resumed := True\<rparr>
                | Inr version \<Rightarrow> ga (GaSet SITE_VERSION version) (st\<lparr>resumed := True\<rparr>)))"

fun deliver :: "lookup \<Rightarrow> event \<Rightarrow> lookup" where
  "deliver st (WorkerReply v) =
     (if reply_pending st then resume (resolve v (st\<lparr>reply_pending := False\<rparr>)) else st)"
| "deliver st TimerFired =
     (if timer_pending st = None then st
      else resume (resolve (Obj [(''version'', Str NULL_VALUE)]) (st\<lparr>timer_pending := None\<rparr>)))"

definition fresh :: lookup where
  "fresh = \<lparr> ga_calls = [], notifications = [], posted = [],
             settled = None, resumed = False, reply_pending = False, timer_pending = None \<rparr>"

definition setSiteVersionOrTimeout :: "string \<Rightarrow> event list \<Rightarrow> lookup" where
  "setSiteVersionOrTimeout initialSWState events =
     foldl deliver (resume (executor initialSWState fresh)) events"

section \<open>Vocabulary of the specification\<close>

text \<open>
  The message the worker sends when a new version has taken over, and the payload of
  the protocol: both sides carry a version string, the new side also its build time.
\<close>

definition update_available :: "jsval \<Rightarrow> jsval" where
  "update_available payload = Obj [(''type'', Str ''UPDATE_AVAILABLE''), (''payload'', payload)]"

definition update_payload :: "string \<Rightarrow> string \<Rightarrow> jsval \<Rightarrow> jsval" where
  "update_payload old new buildTime =
     Obj [(''oldMetadata'', Obj [(''version'', Str old)]),
          (''newMetadata'', Obj [(''version'', Str new), (''buildTime'', buildTime)])]"

text \<open>
  A payload lacks a field when it is not an object, when it has no such key, or when
  the key holds \<^verbatim>\<open>undefined\<close> or \<^verbatim>\<open>null\<close>.
\<close>

definition lacks :: "jsval \<Rightarrow> string \<Rightarrow> bool" where
  "lacks payload k =
     (case payload of
        Obj kvs \<Rightarrow>
          (case map_of kvs k of None \<Rightarrow> True | Some v \<Rightarrow> v = Undefined \<or> v = Null)
      | _ \<Rightarrow> True)"

text \<open>
  The major version in the words of the specification: the integer written by the
  first dot-delimited segment of the version string, a segment being numeric when it
  is a non-empty string of decimal digits.
\<close>

definition first_segment :: "string \<Rightarrow> string" where
  "first_segment v = takeWhile (\<lambda>c. c \<noteq> CHR ''.'') v"

definition decimal_digits :: "string \<Rightarrow> bool" where
  "decimal_digits s = (s \<noteq> [] \<and> list_all is_digit s)"

definition decimal_value :: "string \<Rightarrow> nat" where
  "decimal_value s = foldl (\<lambda>a c. 10 * a + (of_char c - 48)) 0 s"

definition literal_start :: "char \<Rightarrow> bool" where
  \<comment> \<open>The characters a numeric literal of JavaScript, or the blank before it, can begin with.\<close>
  "literal_start c =
     (is_digit c \<or> is_ws c \<or> c = CHR ''+'' \<or> c = CHR ''-'' \<or> c = CHR ''.'' \<or> c = CHR ''I'')"

definition contains :: "string \<Rightarrow> string \<Rightarrow> bool" where
  \<comment> \<open>\<open>pat\<close> occurs in \<open>s\<close>.\<close>
  "contains s pat = (\<exists>pre post. s = pre @ pat @ post)"




definition page0 :: page where
  "page0 = \<lparr> ga_calls = [], notifications = [], posted = [] \<rparr>"

section \<open>Numbers: rounding is exact on small integers\<close>

lemma bit_length_le: "n < 2 ^ w \<Longrightarrow> bit_length n \<le> w"
proof (induction w arbitrary: n)
  case 0
  then show ?case by (simp add: bit_length.simps)
next
  case (Suc w)
  show ?case
  proof (cases "n = 0")
    case True
    then show ?thesis by (simp add: bit_length.simps)
  next
    case False
    from Suc.prems have "n div 2 < 2 ^ w" by simp
    then have "bit_length (n div 2) \<le> w" by (rule Suc.IH)
    with False show ?thesis by (subst bit_length.simps) simp
  qed
qed

lemma bit_length_1: "bit_length (Suc 0) = 1"
  by (simp add: bit_length.simps)

lemma ilog2_of_nat_le:
  assumes "n < 2 ^ 53"
  shows "ilog2 (of_nat n) \<le> 52"
proof -
  have q: "quotient_of (of_nat n) = (int n, 1)"
    using quotient_of_int [of "int n"] by simp
  have "bit_length n \<le> 53" using assms by (rule bit_length_le)
  then show ?thesis
    by (simp add: ilog2_def q bit_length_1 Let_def)
qed

lemma round_half_even_of_int: "round_half_even (of_int z) = z"
  by (simp add: round_half_even_def)

lemma pow2_nonpos: "p \<le> 0 \<Longrightarrow> pow2 p = 1 / 2 ^ nat (- p)"
  by (cases "p = 0") (simp_all add: pow2_def)

lemma to_double_of_nat:
  assumes "n < 2 ^ 53"
  shows "to_double (of_nat n) = Fin (of_nat n)"
proof (cases "n = 0")
  case True
  then show ?thesis by (simp add: to_double_def)
next
  case False
  define p where "p = max (ilog2 (of_nat n) - 52) (- 1074)"
  have p: "p \<le> 0" using ilog2_of_nat_le [OF assms] by (simp add: p_def)
  have pw: "pow2 p = 1 / 2 ^ nat (- p)" using p by (rule pow2_nonpos)
  have quot: "(of_nat n :: rat) / pow2 p = of_int (int n * 2 ^ nat (- p))"
    by (simp add: pw)
  have r: "round_half_even ((of_nat n :: rat) / pow2 p) = int n * 2 ^ nat (- p)"
    unfolding quot by (rule round_half_even_of_int)
  have v: "of_int (round_half_even ((of_nat n :: rat) / pow2 p)) * pow2 p = (of_nat n :: rat)"
    unfolding r by (simp add: pw)
  have "(of_nat n :: rat) < of_nat (2 ^ 53)" using assms by (simp only: of_nat_less_iff)
  also have "\<dots> \<le> 2 ^ 1024" by simp
  finally have small: "\<not> pow2 1024 \<le> (of_nat n :: rat)" by (simp add: pow2_def)
  have pos: "0 < (of_nat n :: rat)" using False by simp
  show ?thesis
    using False pos small v
    by (simp add: to_double_def Let_def p_def [symmetric])
qed

lemma to_double_numeral:
  "numeral k < (2 :: nat) ^ 53 \<Longrightarrow> to_double (numeral k) = Fin (numeral k)"
  using to_double_of_nat [of "numeral k"] by simp


section \<open>Numbers: reading a string of decimal digits\<close>

lemma digit_val_digit: "is_digit c \<Longrightarrow> digit_val c = Some (of_char c - 48)"
  by (simp add: is_digit_def digit_val_def Let_def)

lemma digits_value_decimal:
  "list_all is_digit s \<Longrightarrow>
   digits_value 10 acc s = Some (foldl (\<lambda>a c. 10 * a + (of_char c - 48)) acc s)"
proof (induction s arbitrary: acc)
  case Nil
  then show ?case by simp
next
  case (Cons c cs)
  then have c: "is_digit c" and cs: "list_all is_digit cs" by simp_all
  have "(of_char c :: nat) - 48 < 10" using c by (auto simp: is_digit_def)
  then show ?case using Cons.IH [OF cs] by (simp add: digit_val_digit [OF c])
qed

lemma numeral_value_decimal:
  "decimal_digits s \<Longrightarrow> numeral_value 10 s = Some (decimal_value s)"
  by (simp add: decimal_digits_def numeral_value_def decimal_value_def digits_value_decimal)

lemma digit_not_ws: "is_digit c \<Longrightarrow> \<not> is_ws c"
  by (auto simp: is_digit_def is_ws_def)

lemma dropWhile_hd: "xs \<noteq> [] \<Longrightarrow> \<not> P (hd xs) \<Longrightarrow> dropWhile P xs = xs"
  by (cases xs) simp_all

lemma trim_digits:
  assumes "decimal_digits s"
  shows "trim s = s"
proof -
  from assms have ne: "s \<noteq> []" and all: "list_all is_digit s"
    by (simp_all add: decimal_digits_def)
  have "is_digit (hd s)" using ne all by (cases s) simp_all
  then have 1: "dropWhile is_ws s = s" using ne by (simp add: dropWhile_hd digit_not_ws)
  have "is_digit (last s)" using ne all by (simp add: list_all_iff)
  then have "\<not> is_ws (hd (rev s))" using ne by (simp add: hd_rev digit_not_ws)
  then have 2: "dropWhile is_ws (rev s) = rev s" using ne by (simp add: dropWhile_hd)
  show ?thesis by (simp add: trim_def 1 2)
qed

lemma digit_chars:
  assumes "is_digit c"
  shows "c \<noteq> CHR ''x''" "c \<noteq> CHR ''X''" "c \<noteq> CHR ''o''" "c \<noteq> CHR ''O''"
    "c \<noteq> CHR ''b''" "c \<noteq> CHR ''B''" "c \<noteq> CHR ''+''" "c \<noteq> CHR ''-''"
    "c \<noteq> CHR ''I''" "\<not> is_exp_mark c"
  using assms by (auto simp: is_digit_def is_exp_mark_def)

lemma non_decimal_digits:
  assumes "list_all is_digit s"
  shows "non_decimal s = None"
proof (cases s)
  case Nil
  then show ?thesis by (simp add: non_decimal_def)
next
  case (Cons z t)
  show ?thesis
  proof (cases t)
    case Nil
    with Cons show ?thesis by (simp add: non_decimal_def)
  next
    case (Cons x ds)
    with assms \<open>s = z # t\<close> have "is_digit x" by simp
    from digit_chars [OF this] show ?thesis
      by (simp add: non_decimal_def \<open>s = z # t\<close> Cons)
  qed
qed

lemma takeWhile_all: "list_all P s \<Longrightarrow> takeWhile P s = s"
  by (simp add: list_all_iff)

lemma dropWhile_all: "list_all P s \<Longrightarrow> dropWhile P s = []"
  by (simp add: list_all_iff)

lemma mantissa_digits: "decimal_digits s \<Longrightarrow> mantissa s = Some (of_nat (decimal_value s))"
  by (simp add: mantissa_def Let_def decimal_digits_def takeWhile_all dropWhile_all
      numeral_value_decimal)

lemma unsigned_decimal_digits:
  assumes "decimal_digits s"
  shows "unsigned_decimal s = Some (to_double (of_nat (decimal_value s)))"
proof -
  from assms have ne: "s \<noteq> []" and all: "list_all is_digit s"
    by (simp_all add: decimal_digits_def)
  have noexp: "list_all (\<lambda>c. \<not> is_exp_mark c) s"
    using all by (auto simp: list_all_iff digit_chars)
  have "is_digit (hd s)" using ne all by (cases s) simp_all
  then have "hd s \<noteq> CHR ''I''" by (rule digit_chars)
  then have inf: "s \<noteq> ''Infinity''" by auto
  show ?thesis
    using inf
    by (simp add: unsigned_decimal_def takeWhile_all [OF noexp] dropWhile_all [OF noexp]
        mantissa_digits [OF assms] exponent_part_def pow10_def)
qed

lemma signed_decimal_digits:
  assumes "decimal_digits s"
  shows "signed_decimal s = Some (to_double (of_nat (decimal_value s)))"
proof -
  from assms obtain c t where s: "s = c # t" and c: "is_digit c"
    by (cases s) (auto simp: decimal_digits_def)
  show ?thesis
    using unsigned_decimal_digits [OF assms]
    by (simp add: signed_decimal_def s digit_chars [OF c])
qed

lemma StringToNumber_digits:
  assumes "decimal_digits s"
  shows "StringToNumber s = to_double (of_nat (decimal_value s))"
proof -
  have ne: "s \<noteq> []" using assms by (simp add: decimal_digits_def)
  have nd: "non_decimal s = None"
    using assms by (simp add: decimal_digits_def non_decimal_digits)
  show ?thesis
    by (simp add: StringToNumber_def trim_digits [OF assms] ne nd
        signed_decimal_digits [OF assms])
qed

lemma split_first: "\<exists>ws. split sep s = takeWhile (\<lambda>c. c \<noteq> sep) s # ws"
  by (induction s) auto

lemma element0_split: "element0 (split CHR ''.'' v) = Str (first_segment v)"
  using split_first [of "CHR ''.''" v] by (auto simp: element0_def first_segment_def)

lemma major_of_segment:
  "ToNumber (element0 (split CHR ''.'' v)) = StringToNumber (first_segment v)"
  by (simp add: element0_split)

section \<open>Properties of the Metadata Processor\<close>

lemma processMetadata_cases:
  obtains e where "processMetadata now payload = Inr (ErrorResult e)"
  | m where "processMetadata now payload = Inr (VersionResult m)"
  by (cases "processMetadata_try now (if payload = Undefined then Obj [] else payload)")
    (simp_all add: processMetadata_def)

lemma get_property_nullish:
  "v = Undefined \<or> v = Null \<Longrightarrow> get_property v k = Inl (TypeError_property k)"
  by (auto simp: get_property_def)

lemma try_old_nullish:
  assumes "get_property P ''oldMetadata'' = Inr om" and "om = Undefined \<or> om = Null"
  shows "\<exists>e. processMetadata_try now P = Inl e"
  using assms(1) get_property_nullish [OF assms(2), of "''version''"]
  by (simp add: processMetadata_try_def split: sum.splits)

lemma try_new_nullish:
  assumes "get_property P ''newMetadata'' = Inr nm" and "nm = Undefined \<or> nm = Null"
  shows "\<exists>e. processMetadata_try now P = Inl e"
  using assms(1) get_property_nullish [OF assms(2), of "''version''"]
  by (simp add: processMetadata_try_def split: sum.splits)

lemma try_unreadable:
  assumes "get_property P k = Inl e" and "k = ''oldMetadata'' \<or> k = ''newMetadata''"
  shows "\<exists>e. processMetadata_try now P = Inl e"
  using assms by (auto simp: processMetadata_try_def split: sum.splits)

lemma lacks_get_property:
  assumes "lacks payload k"
  shows "(\<exists>e. get_property (if payload = Undefined then Obj [] else payload) k = Inl e) \<or>
         (\<exists>v. get_property (if payload = Undefined then Obj [] else payload) k = Inr v \<and>
              (v = Undefined \<or> v = Null))"
  using assms by (cases payload) (auto simp: lacks_def get_property_def split: option.splits)

lemma lacks_try:
  assumes "lacks payload ''oldMetadata'' \<or> lacks payload ''newMetadata''"
  shows "\<exists>e. processMetadata_try now (if payload = Undefined then Obj [] else payload) = Inl e"
  using assms
proof
  assume "lacks payload ''oldMetadata''"
  from lacks_get_property [OF this] show ?thesis
    using try_old_nullish try_unreadable by blast
next
  assume "lacks payload ''newMetadata''"
  from lacks_get_property [OF this] show ?thesis
    using try_new_nullish try_unreadable by blast
qed

lemma destructured_error: "destructured (ErrorResult e) f = None"
  by (simp add: destructured_def)

text \<open>
  Claim C3. For every payload, malformed or partial ones included, \<open>processMetadata\<close>
  returns normally: no exception escapes it. For every payload that lacks
  \<^verbatim>\<open>oldMetadata\<close> or lacks \<^verbatim>\<open>newMetadata\<close>, the object returned is the
  \<^verbatim>\<open>{error}\<close> object, and none of the five version fields can be read from it.
\<close>

theorem C3_processMetadata_never_throws:
  "(\<exists>r. processMetadata now payload = Inr r) \<and>
   (lacks payload ''oldMetadata'' \<or> lacks payload ''newMetadata'' \<longrightarrow>
      (\<exists>e. processMetadata now payload = Inr (ErrorResult e) \<and>
           destructured (ErrorResult e) oldVersion = None \<and>
           destructured (ErrorResult e) oldMajorVersion = None \<and>
           destructured (ErrorResult e) newVersion = None \<and>
           destructured (ErrorResult e) newMajorVersion = None \<and>
           destructured (ErrorResult e) timeSinceNewVersionDeployed = None))"
proof (intro conjI impI)
  show "\<exists>r. processMetadata now payload = Inr r"
    by (rule processMetadata_cases [of now payload]) blast+
next
  assume "lacks payload ''oldMetadata'' \<or> lacks payload ''newMetadata''"
  from lacks_try [OF this, of now] obtain e
    where "processMetadata_try now (if payload = Undefined then Obj [] else payload) = Inl e" ..
  then have "processMetadata now payload = Inr (ErrorResult e)"
    by (simp add: processMetadata_def)
  then show "\<exists>e. processMetadata now payload = Inr (ErrorResult e) \<and>
           destructured (ErrorResult e) oldVersion = None \<and>
           destructured (ErrorResult e) oldMajorVersion = None \<and>
           destructured (ErrorResult e) newVersion = None \<and>
           destructured (ErrorResult e) newMajorVersion = None \<and>
           destructured (ErrorResult e) timeSinceNewVersionDeployed = None"
    by (simp add: destructured_error)
qed

theorem C3_processMetadata_never_throws_witness:
  "lacks (Obj [(''newMetadata'', Obj [(''version'', Str ''5.0.0'')])]) ''oldMetadata'' \<and>
   (\<exists>e. processMetadata 0 (Obj [(''newMetadata'', Obj [(''version'', Str ''5.0.0'')])])
          = Inr (ErrorResult e))"
  using C3_processMetadata_never_throws
    [of 0 "Obj [(''newMetadata'', Obj [(''version'', Str ''5.0.0'')])]"]
  by (auto simp: lacks_def)

section \<open>Properties of the update listener\<close>

lemma listener_result:
  assumes "processMetadata now payload = Inr r"
  shows "swUpdateListener s now (update_available payload) st =
           Inr (if \<not> no_major_change r \<and> s = ''controlled''
                then ga (GaSendEvent (sendEvent r ''Messages'' ''sw-update-notify''))
                       (messages_add (update_notification r)
                          (ga (GaSendEvent (sendEvent r ''Service Worker'' ''sw-update'')) st))
                else ga (GaSendEvent (sendEvent r ''Service Worker'' ''sw-update'')) st)"
  using assms
  by (simp add: swUpdateListener_def update_available_def get_property_def Let_def)



lemma page_effects:
  "notifications (ga c st) = notifications st"
  "ga_calls (ga c st) = ga_calls st @ [c]"
  "notifications (messages_add n st) = notifications st @ [n]"
  "ga_calls (messages_add n st) = ga_calls st"
  by (simp_all add: ga_def messages_add_def)

text \<open>
  Claim C5. If the page was not controlled by a worker when it loaded, then for every
  \<^verbatim>\<open>UPDATE_AVAILABLE\<close> payload, whatever the versions and whether or not the
  payload can be parsed, the listener adds no notification; the only event it reports
  is the \<^verbatim>\<open>sw-update\<close> event itself.
\<close>

theorem C5_uncontrolled_never_notifies:
  assumes "initialSWState \<noteq> ''controlled''"
  shows "\<exists>st'. swUpdateListener initialSWState now (update_available payload) st = Inr st' \<and>
              notifications st' = notifications st \<and>
              (\<forall>e. GaSendEvent e \<in> set (ga_calls st') - set (ga_calls st) \<longrightarrow>
                   eventAction e = ''sw-update'')"
proof (rule processMetadata_cases [of now payload])
  fix e
  assume "processMetadata now payload = Inr (ErrorResult e)"
  from listener_result [OF this] assms show ?thesis
    by (auto simp: page_effects sendEvent_def)
next
  fix m
  assume "processMetadata now payload = Inr (VersionResult m)"
  from listener_result [OF this] assms show ?thesis
    by (auto simp: page_effects sendEvent_def)
qed

theorem C5_uncontrolled_never_notifies_witness:
  "''uncontrolled'' \<noteq> ''controlled'' \<and>
   (\<exists>st'. swUpdateListener ''uncontrolled'' 1700000000000
            (update_available (update_payload ''3.2.1'' ''5.0.0'' (Num (Fin 1699990000000))))
            page0 = Inr st' \<and>
          notifications st' = [])"
  using C5_uncontrolled_never_notifies
    [of "''uncontrolled''" 1700000000000
        "update_payload ''3.2.1'' ''5.0.0'' (Num (Fin 1699990000000))" page0]
  by (auto simp: page0_def)

subsection \<open>The payload of the protocol, evaluated\<close>

lemma js_or_Str: "js_or (Str s) (Str []) = Str s"
  by (simp add: js_or_def)

lemma processMetadata_update_payload:
  "processMetadata now (update_payload old new bt) =
     Inr (VersionResult
       \<lparr> oldVersion = old,
         oldMajorVersion = StringToNumber (first_segment old),
         newVersion = new,
         newMajorVersion = StringToNumber (first_segment new),
         timeSinceNewVersionDeployed = js_sub (to_double (of_int now)) (ToNumber bt) \<rparr>)"
  by (simp add: processMetadata_def processMetadata_try_def update_payload_def
      get_property_def js_or_Str split_receiver_def major_of_segment)

lemma StringToNumber_small:
  "decimal_digits s \<Longrightarrow> decimal_value s < 2 ^ 53 \<Longrightarrow>
   StringToNumber s = Fin (of_nat (decimal_value s))"
  by (simp add: StringToNumber_digits to_double_of_nat)

lemma StringToNumber_empty: "StringToNumber [] = Fin 0"
  by (simp add: StringToNumber_def trim_def)

lemma major_examples:
  "StringToNumber (first_segment ''3.2.1'') = Fin 3"
  "StringToNumber (first_segment ''3.5.0'') = Fin 3"
  "StringToNumber (first_segment ''5.0.0'') = Fin 5"
  "StringToNumber (first_segment ''0.1.0'') = Fin 0"
  "StringToNumber (first_segment ''0.2.0'') = Fin 0"
  "StringToNumber (first_segment []) = Fin 0"
  by (simp_all add: first_segment_def StringToNumber_small StringToNumber_empty
      decimal_digits_def is_digit_def decimal_value_def)

lemma time_example_norm:
  "js_sub (to_double 1700000000000) (Fin 1699990000000) = Fin 10000000"
  by (simp add: to_double_numeral)




















section \<open>Properties of the major version\<close>

lemma trim_keeps_head:
  assumes "\<not> is_ws c"
  shows "\<exists>u. trim (c # t) = c # u"
proof -
  have "dropWhile is_ws (rev t @ [c]) = dropWhile is_ws (rev t) @ [c]"
    using assms by (simp add: dropWhile_append)
  then have "trim (c # t) = c # rev (dropWhile is_ws (rev t))"
    using assms by (simp add: trim_def)
  then show ?thesis ..
qed

lemma non_decimal_not_zero: "c \<noteq> CHR ''0'' \<Longrightarrow> non_decimal (c # u) = None"
  by (cases u) (simp_all add: non_decimal_def)

lemma numeral_value_Nil: "numeral_value b [] = None"
  by (simp add: numeral_value_def)

lemma mantissa_no_start:
  assumes "\<not> is_digit c" and "c \<noteq> CHR ''.''"
  shows "mantissa (c # w) = None"
  using assms by (simp add: mantissa_def)

lemma mantissa_Nil: "mantissa [] = None"
  by (simp add: mantissa_def numeral_value_Nil)

lemma unsigned_decimal_no_start:
  assumes "\<not> is_digit c" and "c \<noteq> CHR ''.''" and "c \<noteq> CHR ''I''"
  shows "unsigned_decimal (c # u) = None"
proof -
  have inf: "c # u \<noteq> ''Infinity''" using assms(3) by simp
  have "mantissa (takeWhile (\<lambda>c. \<not> is_exp_mark c) (c # u)) = None"
    using assms by (simp add: mantissa_no_start mantissa_Nil)
  then show ?thesis using inf by (simp add: unsigned_decimal_def)
qed

lemma StringToNumber_no_start:
  assumes "s \<noteq> []" and "\<not> literal_start (hd s)"
  shows "StringToNumber s = NaN"
proof -
  from assms(1) obtain c t where s: "s = c # t" by (cases s) auto
  from assms(2) have c: "\<not> is_digit c" "\<not> is_ws c" "c \<noteq> CHR ''+''" "c \<noteq> CHR ''-''"
    "c \<noteq> CHR ''.''" "c \<noteq> CHR ''I''"
    by (simp_all add: s literal_start_def)
  from trim_keeps_head [OF c(2)] obtain u where u: "trim s = c # u" unfolding s ..
  have "c \<noteq> CHR ''0''" using c(1) by (auto simp: is_digit_def)
  then have nd: "non_decimal (c # u) = None" by (rule non_decimal_not_zero)
  have "signed_decimal (c # u) = None"
    using c by (simp add: signed_decimal_def unsigned_decimal_no_start)
  then show ?thesis by (simp add: StringToNumber_def u nd)
qed

lemma processMetadata_majors:
  assumes "processMetadata now payload = Inr (VersionResult m)"
  shows "oldMajorVersion m = StringToNumber (first_segment (oldVersion m))"
    and "newMajorVersion m = StringToNumber (first_segment (newVersion m))"
  using assms
  by (auto simp: processMetadata_def processMetadata_try_def major_of_segment
      split: sum.splits)

text \<open>
  Claim C4, as amended. For every version string of a result, old or new: if its first
  dot-delimited segment is a non-empty string of decimal digits, the major version is
  the integer they write, rounded to a double, hence that very integer below \<open>2\<^sup>5\<^sup>3\<close>;
  if the segment is empty the major version is \<open>0\<close>, not \<open>NaN\<close>; if the segment
  begins with a character that no numeric literal begins with, it is \<open>NaN\<close>.
\<close>

theorem C4_major_version_parsed:
  assumes "processMetadata now payload = Inr (VersionResult m)"
    and "(v, major) = (oldVersion m, oldMajorVersion m) \<or>
         (v, major) = (newVersion m, newMajorVersion m)"
  shows "(decimal_digits (first_segment v) \<longrightarrow>
            major = to_double (of_nat (decimal_value (first_segment v)))) \<and>
         (decimal_digits (first_segment v) \<and> decimal_value (first_segment v) < 2 ^ 53 \<longrightarrow>
            major = Fin (of_nat (decimal_value (first_segment v)))) \<and>
         (first_segment v = [] \<longrightarrow> major = Fin 0) \<and>
         (first_segment v \<noteq> [] \<and> \<not> literal_start (hd (first_segment v)) \<longrightarrow> major = NaN)"
proof -
  have "major = StringToNumber (first_segment v)"
    using assms(2) processMetadata_majors [OF assms(1)] by auto
  then show ?thesis
    by (simp add: StringToNumber_digits to_double_of_nat StringToNumber_empty
        StringToNumber_no_start)
qed

lemma first_segment_examples:
  "first_segment ''5.0.0'' = ''5''"
  "first_segment ''v5.0'' = ''v5''"
  "first_segment [] = []"
  by (simp_all add: first_segment_def)

theorem C4_major_version_parsed_witness:
  "processMetadata 1700000000000 (update_payload [] ''5.0.0'' (Num (Fin 1699990000000)))
     = Inr (VersionResult \<lparr> oldVersion = [], oldMajorVersion = Fin 0,
                             newVersion = ''5.0.0'', newMajorVersion = Fin 5,
                             timeSinceNewVersionDeployed = Fin 10000000 \<rparr>) \<and>
   decimal_digits (first_segment ''5.0.0'') \<and> decimal_value (first_segment ''5.0.0'') < 2 ^ 53 \<and>
   Fin 5 = Fin (of_nat (decimal_value (first_segment ''5.0.0''))) \<and>
   first_segment [] = [] \<and>
   processMetadata 1700000000000 (update_payload ''v5.0'' ''5.0.0'' (Num (Fin 1699990000000)))
     = Inr (VersionResult \<lparr> oldVersion = ''v5.0'', oldMajorVersion = NaN,
                             newVersion = ''5.0.0'', newMajorVersion = Fin 5,
                             timeSinceNewVersionDeployed = Fin 10000000 \<rparr>) \<and>
   first_segment ''v5.0'' \<noteq> [] \<and> \<not> literal_start (hd (first_segment ''v5.0''))"
proof -
  let ?bt = "Num (Fin 1699990000000)"
  obtain m where m: "processMetadata 1700000000000 (update_payload [] ''5.0.0'' ?bt)
                       = Inr (VersionResult m)"
    and m_old: "oldVersion m = []" and m_new: "newVersion m = ''5.0.0''"
    and m_time: "timeSinceNewVersionDeployed m = Fin 10000000"
    by (simp add: processMetadata_update_payload time_example_norm)
  obtain m' where m': "processMetadata 1700000000000 (update_payload ''v5.0'' ''5.0.0'' ?bt)
                         = Inr (VersionResult m')"
    and m'_old: "oldVersion m' = ''v5.0''" and m'_new: "newVersion m' = ''5.0.0''"
    and m'_time: "timeSinceNewVersionDeployed m' = Fin 10000000"
    by (simp add: processMetadata_update_payload time_example_norm)
  have dd: "decimal_digits ''5''" by (simp add: decimal_digits_def is_digit_def)
  have dv: "decimal_value ''5'' = 5" by (simp add: decimal_value_def)
  have ls: "\<not> literal_start (CHR ''v'')"
    by (simp add: literal_start_def is_digit_def is_ws_def)
  have 1: "newMajorVersion m = Fin 5"
    using C4_major_version_parsed [OF m, of "newVersion m" "newMajorVersion m"]
    by (simp add: m_new first_segment_examples dd dv to_double_numeral)
  have 2: "oldMajorVersion m = Fin 0"
    using C4_major_version_parsed [OF m, of "oldVersion m" "oldMajorVersion m"]
    by (simp add: m_old first_segment_examples)
  have 3: "oldMajorVersion m' = NaN"
    using C4_major_version_parsed [OF m', of "oldVersion m'" "oldMajorVersion m'"]
    by (simp add: m'_old first_segment_examples ls)
  have 4: "newMajorVersion m' = Fin 5"
    using C4_major_version_parsed [OF m', of "newVersion m'" "newMajorVersion m'"]
    by (simp add: m'_new first_segment_examples dd dv to_double_numeral)
  have em: "m = \<lparr> oldVersion = [], oldMajorVersion = Fin 0,
                  newVersion = ''5.0.0'', newMajorVersion = Fin 5,
                  timeSinceNewVersionDeployed = Fin 10000000 \<rparr>"
    using 1 2 m_old m_new m_time by (cases m) simp
  have em': "m' = \<lparr> oldVersion = ''v5.0'', oldMajorVersion = NaN,
                  newVersion = ''5.0.0'', newMajorVersion = Fin 5,
                  timeSinceNewVersionDeployed = Fin 10000000 \<rparr>"
    using 3 4 m'_old m'_new m'_time by (cases m') simp
  show ?thesis
    using m m' by (simp add: em [symmetric] em' [symmetric] first_segment_examples dd dv ls)
qed

theorem C4_empty_segment_counterexample:
  "processMetadata 1700000000000 (update_payload ''3.2.1'' [] (Num (Fin 1699990000000)))
     = Inr (VersionResult \<lparr> oldVersion = ''3.2.1'', oldMajorVersion = Fin 3,
                             newVersion = [], newMajorVersion = Fin 0,
                             timeSinceNewVersionDeployed = Fin 10000000 \<rparr>) \<and>
   \<not> decimal_digits (first_segment []) \<and> Fin 0 \<noteq> NaN"
  by (simp add: processMetadata_update_payload major_examples time_example_norm
      first_segment_examples StringToNumber_empty decimal_digits_def)

section \<open>Properties of the installed listener\<close>

lemma take_length_iff: "take (length p) s = p \<longleftrightarrow> (\<exists>post. s = p @ post)"
proof
  assume "take (length p) s = p"
  then have "s = p @ drop (length p) s" by (metis append_take_drop_id)
  then show "\<exists>post. s = p @ post" ..
next
  assume "\<exists>post. s = p @ post"
  then show "take (length p) s = p" by auto
qed

lemma includes_str_iff: "includes_str s pat \<longleftrightarrow> contains s pat"
  unfolding contains_def
proof (induction s)
  case Nil
  then show ?case by auto
next
  case (Cons c cs)
  have "(\<exists>pre post. c # cs = pre @ pat @ post) \<longleftrightarrow>
        (\<exists>post. c # cs = pat @ post) \<or> (\<exists>pre post. cs = pre @ pat @ post)"
  proof
    assume "\<exists>pre post. c # cs = pre @ pat @ post"
    then obtain pre post where e: "c # cs = pre @ pat @ post" by blast
    show "(\<exists>post. c # cs = pat @ post) \<or> (\<exists>pre post. cs = pre @ pat @ post)"
    proof (cases pre)
      case Nil
      with e show ?thesis by auto
    next
      case (Cons a pre')
      with e have "cs = pre' @ pat @ post" by simp
      then show ?thesis by blast
    qed
  next
    assume "(\<exists>post. c # cs = pat @ post) \<or> (\<exists>pre post. cs = pre @ pat @ post)"
    then show "\<exists>pre post. c # cs = pre @ pat @ post"
    proof
      assume "\<exists>post. c # cs = pat @ post"
      then obtain post where "c # cs = [] @ pat @ post" by auto
      then show ?thesis by blast
    next
      assume "\<exists>pre post. cs = pre @ pat @ post"
      then obtain pre post where "c # cs = (c # pre) @ pat @ post" by auto
      then show ?thesis by blast
    qed
  qed
  then show ?case
    using Cons.IH by (simp add: take_length_iff del: take_Suc_Cons)
qed

text \<open>
  Claim C9. For every \<^verbatim>\<open>installed\<close> event whose \<^verbatim>\<open>isUpdate\<close> is true (or any truthy
  value) the listener does nothing, so no \<^verbatim>\<open>CACHE_URLS\<close> message is posted; when
  \<^verbatim>\<open>isUpdate\<close> is false (or any falsy value) it posts exactly one \<^verbatim>\<open>CACHE_URLS\<close>
  message.
\<close>

theorem C9_update_install_posts_nothing:
  "(truthy isUpdate \<longrightarrow> firstInstalledListener isUpdate href resources st = st) \<and>
   (\<not> truthy isUpdate \<longrightarrow>
      posted (firstInstalledListener isUpdate href resources st) =
        posted st @ [CACHE_URLS (urlsToCache href resources)])"
  by (simp add: firstInstalledListener_def messageSW_def)

theorem C9_update_install_posts_nothing_witness:
  "truthy (Bool True) \<and>
   firstInstalledListener (Bool True) ''https://example.com/''
     [\<lparr> name = ''https://example.com/main.js'' \<rparr>] page0 = page0 \<and>
   \<not> truthy (Bool False) \<and>
   posted (firstInstalledListener (Bool False) ''https://example.com/''
     [\<lparr> name = ''https://example.com/main.js'' \<rparr>] page0) =
     [CACHE_URLS [Url ''https://example.com/'', Url ''https://example.com/main.js'']]"
  using C9_update_install_posts_nothing
      [of "Bool True" "''https://example.com/''" "[\<lparr> name = ''https://example.com/main.js'' \<rparr>]" page0]
    C9_update_install_posts_nothing
      [of "Bool False" "''https://example.com/''" "[\<lparr> name = ''https://example.com/main.js'' \<rparr>]" page0]
  by (simp add: page0_def urlsToCache_def)

text \<open>
  Claim C10. For every \<^verbatim>\<open>installed\<close> event that is not an update, the list sent in
  the \<^verbatim>\<open>CACHE_URLS\<close> message starts with the address of the page, followed by one
  entry for each resource, in order: the pair of the URL and \<^verbatim>\<open>{mode: 'no-cors'}\<close> when
  the URL contains \<^verbatim>\<open>google-analytics.com/analytics.js\<close>, the bare URL otherwise.
\<close>

theorem C10_urls_to_cache:
  assumes "\<not> truthy isUpdate"
  shows "\<exists>items.
           posted (firstInstalledListener isUpdate href resources st) =
             posted st @ [CACHE_URLS items] \<and>
           length items = Suc (length resources) \<and>
           items ! 0 = Url href \<and>
           (\<forall>i < length resources.
              items ! Suc i =
                (if contains (name (resources ! i)) ''google-analytics.com/analytics.js''
                 then UrlWithInit (name (resources ! i)) [(''mode'', ''no-cors'')]
                 else Url (name (resources ! i))))"
  using assms
  by (simp add: firstInstalledListener_def messageSW_def urlsToCache_def Let_def
      includes_str_iff)


theorem C10_urls_to_cache_witness:
  "\<not> truthy (Bool False) \<and>
   posted (firstInstalledListener (Bool False) ''https://example.com/''
     [\<lparr> name = ''https://example.com/main.js'' \<rparr>,
      \<lparr> name = ''https://www.google-analytics.com/analytics.js'' \<rparr>] page0) =
     [CACHE_URLS
        [Url ''https://example.com/'',
         Url ''https://example.com/main.js'',
         UrlWithInit ''https://www.google-analytics.com/analytics.js'' [(''mode'', ''no-cors'')]]]"
proof -
  let ?rs = "[\<lparr> name = ''https://example.com/main.js'' \<rparr>,
              \<lparr> name = ''https://www.google-analytics.com/analytics.js'' \<rparr>]"
  have f: "\<not> truthy (Bool False)" by simp
  from C10_urls_to_cache [OF f, of "''https://example.com/''" ?rs page0]
  obtain items where p: "posted (firstInstalledListener (Bool False) ''https://example.com/''
                           ?rs page0) = posted page0 @ [CACHE_URLS items]"
    and len: "length items = Suc (length ?rs)"
    and i0: "items ! 0 = Url ''https://example.com/''"
    and rest: "\<forall>i < length ?rs.
              items ! Suc i =
                (if contains (name (?rs ! i)) ''google-analytics.com/analytics.js''
                 then UrlWithInit (name (?rs ! i)) [(''mode'', ''no-cors'')]
                 else Url (name (?rs ! i)))"
    by blast
  from len obtain a b c where items: "items = [a, b, c]"
    by (auto simp: length_Suc_conv)
  have a: "a = Url ''https://example.com/''" using i0 by (simp add: items)
  have "\<not> includes_str ''https://example.com/main.js'' ''google-analytics.com/analytics.js''"
    by simp
  then have b: "b = Url ''https://example.com/main.js''"
    using rest [rule_format, of 0] by (simp add: items includes_str_iff [symmetric])
  have "includes_str ''https://www.google-analytics.com/analytics.js''
          ''google-analytics.com/analytics.js''"
    by simp
  then have c: "c = UrlWithInit ''https://www.google-analytics.com/analytics.js''
                      [(''mode'', ''no-cors'')]"
    using rest [rule_format, of 1] by (simp add: items includes_str_iff [symmetric])
  show ?thesis using p by (simp add: items a b c page0_def)
qed

section \<open>Properties of the site-version lookup\<close>

lemma deliver_after_resume:
  assumes "resumed st" and "settled st \<noteq> None"
  shows "resumed (deliver st e) \<and> settled (deliver st e) = settled st \<and>
         ga_calls (deliver st e) = ga_calls st \<and> posted (deliver st e) = posted st"
  using assms by (cases e) (auto simp: resolve_def resume_def)

lemma events_after_resume:
  assumes "resumed st" and "settled st \<noteq> None"
  shows "ga_calls (foldl deliver st events) = ga_calls st \<and>
         posted (foldl deliver st events) = posted st"
  using assms
proof (induction events arbitrary: st)
  case Nil
  then show ?case by simp
next
  case (Cons e events)
  from deliver_after_resume [OF Cons.prems, of e]
  have "resumed (deliver st e)" and "settled (deliver st e) \<noteq> None"
    and same: "ga_calls (deliver st e) = ga_calls st" "posted (deliver st e) = posted st"
    using Cons.prems(2) by auto
  with Cons.IH [of "deliver st e"] show ?case by simp
qed

lemma executor_facts:
  "posted (executor s fresh) = [GET_METADATA]"
  "timer_pending (executor s fresh) = Some 3000"
  "reply_pending (executor s fresh)"
  "ga_calls (executor s fresh) = []"
  "resumed (executor s fresh) = False"
  "settled (executor s fresh) =
     (if s \<noteq> ''controlled'' then Some (Obj [(''version'', Str NULL_VALUE)]) else None)"
  by (simp_all add: executor_def fresh_def resolve_def messageSW_def Let_def)

lemma resume_sentinel:
  assumes "settled st = Some (Obj [(''version'', Str NULL_VALUE)])" and "\<not> resumed st"
  shows "resumed (resume st)" and "settled (resume st) = settled st"
    and "ga_calls (resume st) = ga_calls st @ [GaSet SITE_VERSION (Str NULL_VALUE)]"
    and "posted (resume st) = posted st"
  using assms by (simp_all add: resume_def get_property_def ga_def)

lemma resume_pending:
  assumes "settled st = None"
  shows "resume st = st"
  using assms by (simp add: resume_def)

text \<open>
  Claim C8. The timer is armed with 3000 ms. If it fires before the worker's reply,
  the dimension is set to the sentinel, and whatever arrives afterwards, a late reply
  included, \<^verbatim>\<open>ga\<close> has been called exactly once.
\<close>

theorem C8_timeout_sets_sentinel_once:
  "timer_pending (executor initialSWState fresh) = Some 3000 \<and>
   ga_calls (setSiteVersionOrTimeout initialSWState (TimerFired # events)) =
     [GaSet SITE_VERSION (Str NULL_VALUE)]"
proof (cases "initialSWState = ''controlled''")
  case True
  let ?st = "executor initialSWState fresh"
  have pending: "settled ?st = None" using True by (simp add: executor_facts)
  let ?fired = "resolve (Obj [(''version'', Str NULL_VALUE)]) (?st\<lparr>timer_pending := None\<rparr>)"
  have d: "deliver (resume ?st) TimerFired = resume ?fired"
    by (simp add: resume_pending [OF pending] executor_facts)
  have s: "settled ?fired = Some (Obj [(''version'', Str NULL_VALUE)])"
    and r: "\<not> resumed ?fired" and g: "ga_calls ?fired = []"
    using pending by (simp_all add: resolve_def executor_facts)
  note after = resume_sentinel [OF s r]
  have run: "setSiteVersionOrTimeout initialSWState (TimerFired # events) =
               foldl deliver (resume ?fired) events"
    by (simp only: setSiteVersionOrTimeout_def foldl_Cons d)
  have "ga_calls (foldl deliver (resume ?fired) events) = ga_calls (resume ?fired)"
    using events_after_resume [of "resume ?fired" events] after(1,2) s by simp
  then show ?thesis
    by (simp add: run after(3) g executor_facts(2))
next
  case False
  let ?st = "executor initialSWState fresh"
  have s: "settled ?st = Some (Obj [(''version'', Str NULL_VALUE)])"
    and r: "\<not> resumed ?st"
    using False by (simp_all add: executor_facts)
  note after = resume_sentinel [OF s r]
  have "ga_calls (foldl deliver (resume ?st) (TimerFired # events)) = ga_calls (resume ?st)"
    using events_after_resume [of "resume ?st" "TimerFired # events"] after(1,2) s by simp
  then show ?thesis
    by (simp add: setSiteVersionOrTimeout_def after(3) executor_facts)
qed

lemma reply_in_time_sets_version:
  "ga_calls (setSiteVersionOrTimeout ''controlled''
      [WorkerReply (Obj [(''version'', Str ''5.0.0'')]), TimerFired]) =
     [GaSet SITE_VERSION (Str ''5.0.0'')]"
  by (simp add: setSiteVersionOrTimeout_def resume_def executor_def fresh_def resolve_def
      messageSW_def get_property_def ga_def Let_def)

theorem C8_timeout_sets_sentinel_once_witness:
  "ga_calls (setSiteVersionOrTimeout ''controlled''
      [TimerFired, WorkerReply (Obj [(''version'', Str ''5.0.0'')])]) =
     [GaSet SITE_VERSION (Str ''(not set)'')]"
  using C8_timeout_sets_sentinel_once
    [of "''controlled''" "[WorkerReply (Obj [(''version'', Str ''5.0.0'')])]"]
  by (simp add: NULL_VALUE_def)

text \<open>
  Claim C7, as amended. If the page was not controlled at load, the promise is
  resolved with the sentinel by the executor itself, and the dimension is set to the
  sentinel exactly once, whatever the worker replies and whenever the timer fires.
\<close>

theorem C7_uncontrolled_resolves_at_once:
  assumes "initialSWState \<noteq> ''controlled''"
  shows "settled (executor initialSWState fresh) = Some (Obj [(''version'', Str NULL_VALUE)]) \<and>
         ga_calls (setSiteVersionOrTimeout initialSWState events) =
           [GaSet SITE_VERSION (Str NULL_VALUE)]"
proof -
  let ?st = "executor initialSWState fresh"
  have s: "settled ?st = Some (Obj [(''version'', Str NULL_VALUE)])"
    and r: "\<not> resumed ?st"
    using assms by (simp_all add: executor_facts)
  note after = resume_sentinel [OF s r]
  have "ga_calls (foldl deliver (resume ?st) events) = ga_calls (resume ?st)"
    using events_after_resume [of "resume ?st" events] after(1,2) s by simp
  then show ?thesis
    using assms by (simp add: setSiteVersionOrTimeout_def after(3) executor_facts)
qed

theorem C7_uncontrolled_resolves_at_once_witness:
  "''uncontrolled'' \<noteq> ''controlled'' \<and>
   ga_calls (setSiteVersionOrTimeout ''uncontrolled''
      [WorkerReply (Obj [(''version'', Str ''5.0.0'')]), TimerFired]) =
     [GaSet SITE_VERSION (Str ''(not set)'')]"
  using C7_uncontrolled_resolves_at_once
    [of "''uncontrolled''" "[WorkerReply (Obj [(''version'', Str ''5.0.0'')]), TimerFired]"]
  by (simp add: NULL_VALUE_def)

theorem C7_message_still_posted_counterexample:
  "''uncontrolled'' \<noteq> ''controlled'' \<and>
   posted (setSiteVersionOrTimeout ''uncontrolled'' []) = [GET_METADATA]"
  by (simp add: setSiteVersionOrTimeout_def resume_def executor_def fresh_def resolve_def
      messageSW_def get_property_def ga_def Let_def)

end
